theory Spec2Isabelle
  imports Complex_Main "HOL-Library.Multiset"
begin

section \<open>Python strings, exceptions and SDK operations\<close>

text \<open>
  A Python \<open>str\<close> is a sequence of Unicode code points, which is what \<open>len\<close> counts
  and what \<open>repr\<close> inspects: a \<open>pystr\<close> is the list of the code points as numbers.
  \<open>lit\<close> gives the \<open>pystr\<close> of a literal of the source, character by character.
\<close>

type_synonym pystr = "nat list"

definition lit :: "string \<Rightarrow> pystr" where
  "lit s = map of_char s"

text \<open>
  The notebooks call the AWS SDK and otherwise use plain Python: subscripts, names,
  \<open>str.format\<close>. The built-in exceptions these raise are \<open>py_error\<close>. An exception
  that stops a cell is one of them or whatever the SDK call raised; the type \<open>'x\<close> of
  the SDK's exceptions is left open.
\<close>

datatype py_error =
    KeyError pystr
  | IndexError
  | NameError pystr
  | ValueError

datatype 'x py_exception =
    SdkException 'x
  | PyError py_error

text \<open>
  An SDK operation is a blocking request/response call against a remote service whose state
  \<open>'w\<close> the caller cannot see: it takes the keyword arguments (the request) and the
  state of the service, and gives back either the raised exception or the response, with
  the new state of the service.
\<close>

type_synonym ('req, 'w, 'x, 'resp) sdk_operation = "'req \<Rightarrow> 'w \<Rightarrow> ('x + 'resp) \<times> 'w"

text \<open>
  An operation wrapped so that every request it receives is appended to a log kept beside
  the service state. The wrapper answers as the operation does.
\<close>

definition recording ::
  "('req, 'w, 'x, 'resp) sdk_operation \<Rightarrow> ('req, 'req list \<times> 'w, 'x, 'resp) sdk_operation" where
  "recording api req lw =
     (case lw of (sent, w) \<Rightarrow> (case api req w of (r, w') \<Rightarrow> (r, (sent @ [req], w'))))"

section \<open>The \<open>retrieve\<close> function\<close>

text \<open>
  \<^verbatim>\<open>
  def retrieve(user_query, kb_id, num_of_results=5):
      return bedrock_agent_client.retrieve(
          retrievalQuery= {'text': user_query},
          knowledgeBaseId=kb_id,
          retrievalConfiguration= {
              'vectorSearchConfiguration': {
                  'numberOfResults': num_of_results,
                  'overrideSearchType': "HYBRID", # optional
              }
          }
      )
  \<close>
  The keyword arguments are records; the key \<open>'text'\<close> of the query is the field
  \<open>query_text\<close>. The optional third parameter is an \<open>int option\<close>: \<open>None\<close> is a
  call that omits it.
\<close>

record retrieval_query =
  query_text :: pystr

record vector_search_configuration =
  numberOfResults :: int
  overrideSearchType :: pystr

record retrieval_configuration =
  vectorSearchConfiguration :: vector_search_configuration

record retrieve_request =
  retrievalQuery :: retrieval_query
  knowledgeBaseId :: pystr
  retrievalConfiguration :: retrieval_configuration

definition retrieve ::
  "(retrieve_request, 'w, 'x, 'resp) sdk_operation \<Rightarrow> pystr \<Rightarrow> pystr \<Rightarrow> int option
     \<Rightarrow> 'w \<Rightarrow> ('x + 'resp) \<times> 'w" where
  "retrieve bedrock_agent_client_retrieve user_query kb_id num_of_results_arg =
     (let num_of_results = (case num_of_results_arg of None \<Rightarrow> 5 | Some n \<Rightarrow> n)
      in bedrock_agent_client_retrieve
           \<lparr> retrievalQuery = \<lparr> query_text = user_query \<rparr>,
             knowledgeBaseId = kb_id,
             retrievalConfiguration =
               \<lparr> vectorSearchConfiguration =
                   \<lparr> numberOfResults = num_of_results,
                     overrideSearchType = lit ''HYBRID'' \<rparr> \<rparr> \<rparr>)"

section \<open>The Retrieve response and the context extraction\<close>

text \<open>
  The response of Retrieve is a dictionary with the list \<open>retrievalResults\<close>; each
  result has the members \<open>content\<close>, \<open>location\<close> and \<open>score\<close>. The code
  reads \<open>rr['content']['text']\<close>: the member \<open>text\<close> of the content is optional in
  the service's response shape (a content of another kind has none), and subscripting a
  dictionary without the key raises KeyError. Locations and scores are never inspected by
  the code, so their types are left open.
\<close>

record retrieval_result_content =
  content_text :: "pystr option"

record ('l, 's) retrieval_result =
  rr_content :: retrieval_result_content
  location :: 'l
  score :: 's

record ('l, 's) retrieve_response =
  retrievalResults :: "('l, 's) retrieval_result list"

text \<open>
  \<^verbatim>\<open>[rr['content']['text'] for rr in response['retrievalResults']]\<close>
  The comprehension evaluates the element expression for each result in order and stops at
  the first exception.
\<close>

fun contexts_of :: "('l, 's) retrieval_result list \<Rightarrow> py_error + pystr list" where
  "contexts_of [] = Inr []"
| "contexts_of (rr # rrs) =
     (case content_text (rr_content rr) of
        None \<Rightarrow> Inl (KeyError (lit ''text''))
      | Some t \<Rightarrow> (case contexts_of rrs of Inl e \<Rightarrow> Inl e | Inr ts \<Rightarrow> Inr (t # ts)))"

section \<open>Python string rendering\<close>

text \<open>
  \<open>str.format\<close> renders each replacement field with \<open>format(value, '')\<close>, which is
  \<open>str(value)\<close>: a string renders as itself, a list as \<open>'[' + ', '.join(repr(x)) + ']'\<close>.
  The values the notebook formats are a string and a list of strings.

  \<open>repr\<close> of a string (CPython's \<open>unicode_repr\<close>). The quote is the single quote (39),
  unless the string holds a single quote and no double quote (34). The quote and the
  backslash (92) are escaped with a backslash; tab, newline and carriage return are
  \<open>\t\<close>, \<open>\n\<close>, \<open>\r\<close>; the other code points below 32 and 127 are \<open>\xNN\<close>; the
  other code points below 127 stand for themselves. A code point from 128 on stands for
  itself when it is printable and is otherwise \<open>\xNN\<close> up to 255, \<open>\uNNNN\<close> up to
  65535 and \<open>\UNNNNNNNN\<close> beyond, in lower-case hexadecimal.

  Which code points from 128 on are printable is a table of the Unicode database of the
  interpreter (\<open>str.isprintable\<close>), not of this repository: it is the parameter
  \<open>isprintable\<close> of the rendering and of everything that renders.
\<close>

datatype py_value = PyStr pystr | PyStrList "pystr list"

definition hex_digit :: "nat \<Rightarrow> nat" where
  "hex_digit d = (if d < 10 then 48 + d else 87 + d)"

text \<open>The hexadecimal digits of \<open>n\<close> at the given places, the highest place first.\<close>

definition hex :: "nat list \<Rightarrow> nat \<Rightarrow> pystr" where
  "hex places n = map (\<lambda>e. hex_digit (n div 16 ^ e mod 16)) places"

definition repr_char :: "(nat \<Rightarrow> bool) \<Rightarrow> nat \<Rightarrow> nat \<Rightarrow> pystr" where
  "repr_char isprintable quote c =
     (if c = quote \<or> c = 92 then [92, c]
      else if c = 9 then 92 # lit ''t''
      else if c = 10 then 92 # lit ''n''
      else if c = 13 then 92 # lit ''r''
      else if c < 32 \<or> c = 127 then 92 # lit ''x'' @ hex [1, 0] c
      else if c < 127 then [c]
      else if isprintable c then [c]
      else if c \<le> 255 then 92 # lit ''x'' @ hex [1, 0] c
      else if c \<le> 65535 then 92 # lit ''u'' @ hex [3, 2, 1, 0] c
      else 92 # lit ''U'' @ hex [7, 6, 5, 4, 3, 2, 1, 0] c)"

definition str_repr :: "(nat \<Rightarrow> bool) \<Rightarrow> pystr \<Rightarrow> pystr" where
  "str_repr isprintable s =
     (let quote = (if 39 \<in> set s \<and> 34 \<notin> set s then 34 else 39)
      in [quote] @ concat (map (repr_char isprintable quote) s) @ [quote])"

fun join :: "pystr \<Rightarrow> pystr list \<Rightarrow> pystr" where
  "join sep [] = []"
| "join sep [x] = x"
| "join sep (x # y # ys) = x @ sep @ join sep (y # ys)"

definition list_repr :: "(nat \<Rightarrow> bool) \<Rightarrow> pystr list \<Rightarrow> pystr" where
  "list_repr isprintable xs =
     lit ''['' @ join (lit '', '') (map (str_repr isprintable) xs) @ lit '']''"

fun py_str :: "(nat \<Rightarrow> bool) \<Rightarrow> py_value \<Rightarrow> pystr" where
  "py_str isprintable (PyStr s) = s"
| "py_str isprintable (PyStrList xs) = list_repr isprintable xs"

text \<open>
  \<open>template.format(**kwargs)\<close> for templates whose replacement fields are plain keyword
  names (no conversion, format specification, attribute or index), which is what the
  notebook's template uses. The scanner reads the template from left to right: \<open>{{\<close> and
  \<open>}}\<close> are literal braces, \<open>{name}\<close> is replaced by the rendering of the keyword
  argument \<open>name\<close> (KeyError when there is none), a lone \<open>}\<close> or an unclosed \<open>{\<close> is a
  ValueError. The inserted text is not scanned again. The third argument is the field
  name read so far, \<open>None\<close> outside a field. Positional fields (an empty or numeric
  name) do not occur in the notebook's template and are not distinguished here. The
  braces are the code points 123 and 125.
\<close>

fun format_scan ::
  "(nat \<Rightarrow> bool) \<Rightarrow> (pystr \<times> py_value) list \<Rightarrow> pystr option \<Rightarrow> pystr \<Rightarrow> py_error + pystr" where
  "format_scan isprintable kwargs None [] = Inr []"
| "format_scan isprintable kwargs (Some name) [] = Inl ValueError"
| "format_scan isprintable kwargs None (c # cs) =
     (if c = 123 then
        (case cs of
           [] \<Rightarrow> Inl ValueError
         | d # ds \<Rightarrow>
             if d = 123 then map_sum id ((#) c) (format_scan isprintable kwargs None ds)
             else format_scan isprintable kwargs (Some []) cs)
      else if c = 125 then
        (case cs of
           [] \<Rightarrow> Inl ValueError
         | d # ds \<Rightarrow>
             if d = 125 then map_sum id ((#) c) (format_scan isprintable kwargs None ds)
             else Inl ValueError)
      else map_sum id ((#) c) (format_scan isprintable kwargs None cs))"
| "format_scan isprintable kwargs (Some name) (c # cs) =
     (if c = 125 then
        (case map_of kwargs name of
           None \<Rightarrow> Inl (KeyError name)
         | Some v \<Rightarrow>
             map_sum id ((@) (py_str isprintable v)) (format_scan isprintable kwargs None cs))
      else format_scan isprintable kwargs (Some (name @ [c])) cs)"

definition format ::
  "(nat \<Rightarrow> bool) \<Rightarrow> pystr \<Rightarrow> (pystr \<times> py_value) list \<Rightarrow> py_error + pystr" where
  "format isprintable template kwargs = format_scan isprintable kwargs None template"

section \<open>The Converse request and the notebook cells\<close>

text \<open>
  A content block of the Converse API is a union: the code writes and reads its \<open>text\<close>
  member. \<open>block['text']\<close> on a block of another kind raises KeyError.
\<close>

datatype content_block = TextBlock pystr | NonTextBlock

fun block_text :: "content_block \<Rightarrow> py_error + pystr" where
  "block_text (TextBlock t) = Inr t"
| "block_text NonTextBlock = Inl (KeyError (lit ''text''))"

record 'c message =
  role :: pystr
  content :: 'c

record inference_config =
  temperature :: rat
  topP :: rat
  maxTokens :: int

record converse_request_dict =
  system :: "content_block list"
  messages :: "content_block list message list"
  inferenceConfig :: inference_config

text \<open>The keyword arguments of \<open>bedrock_client.converse\<close>: those three and \<open>modelId\<close>.\<close>

record converse_kwargs = converse_request_dict +
  modelId :: pystr

record converse_output =
  message :: "content_block list message"

record converse_response =
  output' :: converse_output

text \<open>
  The names of the notebook's session that the two cells read and assign. \<open>user_query\<close>,
  \<open>model_id\<close> and \<open>response\<close> are bound by earlier cells; a name the two cells bind
  is \<open>None\<close> while unbound, and reading it then raises NameError. The name \<open>response\<close>
  holds the Retrieve response first and is bound again to the Converse response by the
  last cell. \<open>stdout\<close> is the text printed so far.
\<close>

datatype ('l, 's) response_value =
    RetrieveResponse "('l, 's) retrieve_response"
  | ConverseResponse converse_response

record ('l, 's) namespace =
  user_query :: pystr
  model_id :: pystr
  response :: "('l, 's) response_value"
  system_prompt :: "pystr option"
  user_prompt_template :: "pystr option"
  contexts :: "pystr list option"
  converse_request :: "converse_request_dict option"
  stdout :: pystr

definition system_prompt_text :: pystr where
  "system_prompt_text =
     lit ''You are a financial advisor AI system, and provides answers to questions\<newline>'' @
     lit ''by using fact based and statistical information when possible. \<newline>'' @
     lit ''Use the following pieces of information in <context> tags to provide a concise answer to the questions.\<newline>'' @
     lit ''Give an answer directly, without any XML tags.\<newline>'' @
     lit ''If you don't know the answer, just say that you don't know, don't try to make up an answer.''"

definition user_prompt_template_text :: pystr where
  "user_prompt_template_text =
     lit ''Here is some additional context:\<newline>'' @
     lit ''<context>\<newline>'' @
     lit ''{contexts}\<newline>'' @
     lit ''</context>\<newline>'' @
     lit ''\<newline>'' @
     lit ''Please provide an answer to this user query:\<newline>'' @
     lit ''<query>\<newline>'' @
     lit ''{user_query}\<newline>'' @
     lit ''</query>\<newline>'' @
     lit ''\<newline>'' @
     lit ''The response should be specific and use statistics or numbers when possible.''"

text \<open>
  The cell that defines the two prompts and extracts the contexts:
  \<^verbatim>\<open>
  system_prompt = """..."""
  user_prompt_template = """..."""
  contexts = [rr['content']['text'] for rr in response['retrievalResults']]
  \<close>
  A cell returns the exception that stopped it, if any, and the session as it is then:
  the assignments made before the exception stay.
\<close>

definition cell_prompts ::
  "('l, 's) namespace \<Rightarrow> py_error option \<times> ('l, 's) namespace" where
  "cell_prompts ns =
     (let ns1 = ns\<lparr> system_prompt := Some system_prompt_text \<rparr>;
          ns2 = ns1\<lparr> user_prompt_template := Some user_prompt_template_text \<rparr>
      in case response ns2 of
           ConverseResponse r \<Rightarrow> (Some (KeyError (lit ''retrievalResults'')), ns2)
         | RetrieveResponse r \<Rightarrow>
             (case contexts_of (retrievalResults r) of
                Inl e \<Rightarrow> (Some e, ns2)
              | Inr cs \<Rightarrow> (None, ns2\<lparr> contexts := Some cs \<rparr>)))"

text \<open>
  The dictionary \<open>converse_request\<close> of the last cell:
  \<^verbatim>\<open>
  converse_request = {
      "system": [{"text": system_prompt}],
      "messages": [{"role": "user",
                    "content": [{"text": user_prompt_template.format(
                                     contexts=contexts, user_query=user_query)}]}],
      "inferenceConfig": {"temperature": 0.4, "topP": 0.9, "maxTokens": 500}
  }
  \<close>
  The two float literals are the rationals they denote; the code passes them on without
  computing with them.
\<close>

definition build_converse_request ::
  "(nat \<Rightarrow> bool) \<Rightarrow> ('l, 's) namespace \<Rightarrow> py_error + converse_request_dict" where
  "build_converse_request isprintable ns =
     (case system_prompt ns of
        None \<Rightarrow> Inl (NameError (lit ''system_prompt''))
      | Some sp \<Rightarrow>
     (case user_prompt_template ns of
        None \<Rightarrow> Inl (NameError (lit ''user_prompt_template''))
      | Some template \<Rightarrow>
     (case contexts ns of
        None \<Rightarrow> Inl (NameError (lit ''contexts''))
      | Some cs \<Rightarrow>
     (case format isprintable template [(lit ''contexts'', PyStrList cs), (lit ''user_query'', PyStr (user_query ns))] of
        Inl e \<Rightarrow> Inl e
      | Inr prompt \<Rightarrow>
          Inr \<lparr> system = [TextBlock sp],
                messages = [\<lparr> role = lit ''user'', content = [TextBlock prompt] \<rparr>],
                inferenceConfig = \<lparr> temperature = 0.4, topP = 0.9, maxTokens = 500 \<rparr> \<rparr>))))"

text \<open>\<^verbatim>\<open>response["output"]["message"]["content"][0]["text"]\<close>\<close>

definition final_answer :: "converse_response \<Rightarrow> py_error + pystr" where
  "final_answer resp =
     (case content (message (output' resp)) of
        [] \<Rightarrow> Inl IndexError
      | b # bs \<Rightarrow> block_text b)"

text \<open>
  The last cell: build \<open>converse_request\<close>, call Converse, print the answer.
  \<^verbatim>\<open>
  response = bedrock_client.converse(
      modelId=model_id,
      system=converse_request['system'],
      messages=converse_request["messages"],
      inferenceConfig=converse_request["inferenceConfig"])
  print("Final Answer:\n", response["output"]["message"]["content"][0]["text"])
  \<close>
  There is no \<open>try\<close> in the cell. \<open>print\<close> writes its arguments separated by a space
  and ends the line.
\<close>

definition cell_generate ::
  "(nat \<Rightarrow> bool) \<Rightarrow> (converse_kwargs, 'w, 'x, converse_response) sdk_operation
     \<Rightarrow> ('l, 's) namespace \<Rightarrow> 'w \<Rightarrow> ('x py_exception option \<times> ('l, 's) namespace) \<times> 'w" where
  "cell_generate isprintable bedrock_client_converse ns w =
     (case build_converse_request isprintable ns of
        Inl e \<Rightarrow> ((Some (PyError e), ns), w)
      | Inr req \<Rightarrow>
          (let ns1 = ns\<lparr> converse_request := Some req \<rparr>
           in case bedrock_client_converse
                     \<lparr> system = system req,
                       messages = messages req,
                       inferenceConfig = inferenceConfig req,
                       modelId = model_id ns1 \<rparr> w of
                (Inl x, w') \<Rightarrow> ((Some (SdkException x), ns1), w')
              | (Inr resp, w') \<Rightarrow>
                  (let ns2 = ns1\<lparr> response := ConverseResponse resp \<rparr>
                   in case final_answer resp of
                        Inl e \<Rightarrow> ((Some (PyError e), ns2), w')
                      | Inr answer \<Rightarrow>
                          ((None, ns2\<lparr> stdout := stdout ns2 @ lit ''Final Answer:\<newline>'' @ lit '' '' @ answer @ lit ''\<newline>'' \<rparr>),
                           w'))))"

section \<open>Dataset subsampling: \<open>dp_transform\<close>\<close>

text \<open>
  A data point of the fine-tuning corpus is the dictionary
  \<^verbatim>\<open>{"system": s, "messages": [{"role": "user", "content": u},
                                   {"role": "assistant", "content": a}]}\<close>.
  Its keys \<open>system\<close> and \<open>messages\<close> are the fields \<open>dp_system\<close> and
  \<open>dp_messages\<close> (the Converse request has keys of the same names). \<open>len\<close> of a
  string is the number of its code points, the length of the \<open>pystr\<close>.
\<close>

record datapoint =
  dp_system :: pystr
  dp_messages :: "pystr message list"

text \<open>
  \<^verbatim>\<open>dp['system']+dp['messages'][0]['content']+dp['messages'][1]['content']\<close>
  Indexing the list of messages beyond its end raises IndexError.
\<close>

definition dp_text :: "datapoint \<Rightarrow> py_error + pystr" where
  "dp_text dp =
     (case dp_messages dp of
        [] \<Rightarrow> Inl IndexError
      | m0 # ms \<Rightarrow>
          (case ms of
             [] \<Rightarrow> Inl IndexError
           | m1 # ms' \<Rightarrow> Inr (dp_system dp @ content m0 @ content m1)))"

text \<open>
  The loop over \<open>data_points\<close>, with the list \<open>lines\<close> built so far:
  \<^verbatim>\<open>
  for dp in data_points:
      if len(...) <= max_dp_length:
          lines.append(dp)
  \<close>
\<close>

fun filter_loop :: "int \<Rightarrow> datapoint list \<Rightarrow> datapoint list \<Rightarrow> py_error + datapoint list" where
  "filter_loop max_dp_length lines [] = Inr lines"
| "filter_loop max_dp_length lines (dp # dps) =
     (case dp_text dp of
        Inl e \<Rightarrow> Inl e
      | Inr t \<Rightarrow>
          if int (length t) \<le> max_dp_length
          then filter_loop max_dp_length (lines @ [dp]) dps
          else filter_loop max_dp_length lines dps)"

text \<open>
  \<open>random.shuffle\<close> of the standard library, on the state \<open>'g\<close> of the module's hidden
  generator:
  \<^verbatim>\<open>
  for i in reversed(range(1, len(x))):
      j = randbelow(i + 1)
      x[i], x[j] = x[j], x[i]
  \<close>
  The generator itself (a Mersenne Twister) is a parameter: any function from a bound and a
  state to a number and the next state. \<open>randbelow(n)\<close> returns a number below \<open>n\<close>;
  the reduction modulo \<open>n\<close> makes every generator keep that contract.
\<close>

type_synonym 'g generator = "nat \<Rightarrow> 'g \<Rightarrow> nat \<times> 'g"

definition randbelow :: "'g generator \<Rightarrow> nat \<Rightarrow> 'g \<Rightarrow> nat \<times> 'g" where
  "randbelow gen n g = (case gen n g of (k, g') \<Rightarrow> (k mod n, g'))"

fun shuffle_from :: "'g generator \<Rightarrow> nat \<Rightarrow> 'a list \<Rightarrow> 'g \<Rightarrow> 'a list \<times> 'g" where
  "shuffle_from gen 0 x g = (x, g)"
| "shuffle_from gen (Suc i) x g =
     (case randbelow gen (Suc i + 1) g of
        (j, g') \<Rightarrow> shuffle_from gen i (x[Suc i := x ! j, j := x ! Suc i]) g')"

definition shuffle :: "'g generator \<Rightarrow> 'a list \<Rightarrow> 'g \<Rightarrow> 'a list \<times> 'g" where
  "shuffle gen x g = shuffle_from gen (length x - 1) x g"

text \<open>
  The slice \<open>xs[:n]\<close>: a negative \<open>n\<close> counts from the end, and the bound is clipped to
  the list.
\<close>

definition slice_to :: "'a list \<Rightarrow> int \<Rightarrow> 'a list" where
  "slice_to xs n = (if n < 0 then take (nat (int (length xs) + n)) xs else take (nat n) xs)"

text \<open>
  \<^verbatim>\<open>
  def dp_transform(data_points,num_dps,max_dp_length):
      lines=[]
      for dp in data_points: ...
      random.shuffle(lines)
      lines=lines[:num_dps]
      return lines
  \<close>
  The function takes the state of the generator and returns it with the result. An
  exception in the loop leaves the generator untouched.
\<close>

definition dp_transform ::
  "'g generator \<Rightarrow> datapoint list \<Rightarrow> int \<Rightarrow> int \<Rightarrow> 'g \<Rightarrow> (py_error + datapoint list) \<times> 'g" where
  "dp_transform gen data_points num_dps max_dp_length g =
     (case filter_loop max_dp_length [] data_points of
        Inl e \<Rightarrow> (Inl e, g)
      | Inr lines \<Rightarrow>
          (case shuffle gen lines g of
             (lines', g') \<Rightarrow> (Inr (slice_to lines' num_dps), g')))"

text \<open>
  The length filter in the words of the specification: a record passes when it has its
  user and assistant messages and the lengths of its system, user and assistant texts add
  up to at most the limit.
\<close>

definition within_limit :: "int \<Rightarrow> datapoint \<Rightarrow> bool" where
  "within_limit max_dp_length dp =
     (case dp_messages dp of
        [] \<Rightarrow> False
      | m0 # ms \<Rightarrow>
          (case ms of
             [] \<Rightarrow> False
           | m1 # ms' \<Rightarrow>
               int (length (dp_system dp) + length (content m0) + length (content m1))
                 \<le> max_dp_length))"

section \<open>Example sessions and stand-in services\<close>

text \<open>
  Concrete inputs on which the properties below are evaluated: services that answer with
  the request they received, with a fixed answer, or with an exception; a session holding
  a Retrieve response of two results; a session whose contexts and query hold quotes,
  control characters, braces and code points beyond 255, with the printable test of the
  code points it uses; three data points and a generator that counts.
\<close>

definition echo :: "('req, unit, 'x, 'req) sdk_operation" where
  "echo req w = (Inr req, w)"

definition answering :: "pystr \<Rightarrow> (converse_kwargs, unit, 'x, converse_response) sdk_operation" where
  "answering t kw w =
     (Inr \<lparr> output' = \<lparr> message = \<lparr> role = lit ''assistant'', content = [TextBlock t] \<rparr> \<rparr> \<rparr>, w)"

definition failing :: "'x \<Rightarrow> ('req, unit, 'x, 'resp) sdk_operation" where
  "failing x req w = (Inl x, w)"

definition example_results :: "(unit, unit) retrieval_result list" where
  "example_results =
     [\<lparr> rr_content = \<lparr> content_text = Some (lit ''Amazon's view'') \<rparr>, location = (), score = () \<rparr>,
      \<lparr> rr_content = \<lparr> content_text = Some (lit ''Bedrock'') \<rparr>, location = (), score = () \<rparr>]"

definition example_session :: "(unit, unit) namespace" where
  "example_session =
     \<lparr> user_query = lit ''What is Amazon doing in the field of Generative AI?'',
       model_id = lit ''amazon.nova-micro-v1:0'',
       response = RetrieveResponse \<lparr> retrievalResults = example_results \<rparr>,
       system_prompt = None,
       user_prompt_template = None,
       contexts = None,
       converse_request = None,
       stdout = [] \<rparr>"

definition example_prompted :: "(unit, unit) namespace" where
  "example_prompted =
     example_session\<lparr> system_prompt := Some system_prompt_text,
                       user_prompt_template := Some user_prompt_template_text,
                       contexts := Some [lit ''Amazon's view'', lit ''Bedrock''] \<rparr>"

definition other_session :: "(unit, unit) namespace" where
  "other_session =
     example_session\<lparr> user_query := lit ''How many employees?'',
                      response := RetrieveResponse \<lparr> retrievalResults = [] \<rparr> \<rparr>"

definition example_printable :: "nat \<Rightarrow> bool" where
  "example_printable c = (c \<notin> {173, 8201, 8203, 917505})"

definition unicode_session :: "(unit, unit) namespace" where
  "unicode_session =
     example_prompted\<lparr>
       user_query := lit ''Quel est le chiffre d'affaires en '' @ [8364] @ lit '' {contexts}?'',
       contexts := Some [lit ''Amazon's view'',
                         lit ''5'' @ [8201] @ lit ''%'' @ [9] @ lit ''up'' @
                         [10, 8203, 173, 128200, 917505, 92, 233]] \<rparr>"

definition counter_gen :: "nat generator" where
  "counter_gen n g = (g, Suc g)"

definition point_a :: datapoint where
  "point_a = \<lparr> dp_system = lit ''s'',
       dp_messages = [\<lparr> role = lit ''user'', content = lit ''hi'' \<rparr>,
                      \<lparr> role = lit ''assistant'', content = lit ''ok'' \<rparr>] \<rparr>"

definition point_b :: datapoint where
  "point_b = \<lparr> dp_system = lit ''s'',
       dp_messages = [\<lparr> role = lit ''user'', content = lit ''hello'' \<rparr>,
                      \<lparr> role = lit ''assistant'', content = lit ''yes'' \<rparr>] \<rparr>"

definition point_long :: datapoint where
  "point_long = \<lparr> dp_system = lit ''system'',
       dp_messages = [\<lparr> role = lit ''user'', content = lit ''a long dialogue'' \<rparr>,
                      \<lparr> role = lit ''assistant'', content = lit ''summary'' \<rparr>] \<rparr>"

section \<open>Lemmas on the cells\<close>

lemma format_user_prompt:
  "(format isprintable user_prompt_template_text [(lit ''contexts'', PyStrList cs), (lit ''user_query'', PyStr q)]) =
    Inr (lit ''Here is some additional context:\<newline><context>\<newline>'' @ list_repr isprintable cs @
     lit ''\<newline></context>\<newline>\<newline>Please provide an answer to this user query:\<newline><query>\<newline>'' @ q @
     lit ''\<newline></query>\<newline>\<newline>The response should be specific and use statistics or numbers when possible.'')"
  by (simp add: format_def user_prompt_template_text_def lit_def)

lemma contexts_of_Inr_iff:
  "(contexts_of rs = (Inr cs))
     \<longleftrightarrow> map (\<lambda>rr. content_text (rr_content rr)) rs = map Some cs"
proof (induction rs arbitrary: cs)
  case Nil
  show ?case by auto
next
  case (Cons rr rrs)
  show ?case
  proof (cases "content_text (rr_content rr)")
    case None
    then show ?thesis by auto
  next
    case (Some t)
    show ?thesis
    proof (cases "contexts_of rrs")
      case (Inl e)
      with Cons.IH have "\<And>ts. map (\<lambda>rr. content_text (rr_content rr)) rrs \<noteq> map Some ts"
        by simp
      with Some Inl show ?thesis by (cases cs) auto
    next
      case (Inr ts)
      with Cons.IH [of ts] have "map (\<lambda>rr. content_text (rr_content rr)) rrs = map Some ts"
        by simp
      with Some Inr show ?thesis by (cases cs) (auto simp: inj_map_eq_map)
    qed
  qed
qed

lemma cell_prompts_response:
  "response (snd (cell_prompts ns)) = response ns"
  by (simp add: cell_prompts_def Let_def split: response_value.split sum.split)

lemma cell_prompts_succeeds:
  assumes "cell_prompts ns0 = (None, ns)"
  shows "\<exists>r cs. response ns0 = RetrieveResponse r
            \<and> contexts_of (retrievalResults r) = (Inr cs)
            \<and> ns = ns0\<lparr> system_prompt := Some system_prompt_text,
                         user_prompt_template := Some user_prompt_template_text,
                         contexts := Some cs \<rparr>"
  using assms
  by (auto simp: cell_prompts_def Let_def split: response_value.splits sum.splits)

lemma build_converse_request_bound:
  assumes "system_prompt ns = Some sp"
      and "user_prompt_template ns = Some template"
      and "contexts ns = Some cs"
      and "format isprintable template [(lit ''contexts'', PyStrList cs), (lit ''user_query'', PyStr (user_query ns))]
             = (Inr prompt)"
  shows "build_converse_request isprintable ns =
           (Inr \<lparr> system = [TextBlock sp],
                  messages = [\<lparr> role = lit ''user'', content = [TextBlock prompt] \<rparr>],
                  inferenceConfig = \<lparr> temperature = 0.4, topP = 0.9, maxTokens = 500 \<rparr> \<rparr>)"
  using assms by (simp add: build_converse_request_def)

lemma cell_generate_built:
  fixes api :: "(converse_kwargs, 'w, 'x, converse_response) sdk_operation"
  assumes "build_converse_request isprintable ns = (Inr req)"
  shows "cell_generate isprintable api ns w =
    (case api \<lparr> system = system req, messages = messages req,
                 inferenceConfig = inferenceConfig req, modelId = model_id ns \<rparr> w of
       (Inl x, w') \<Rightarrow> ((Some (SdkException x), ns\<lparr> converse_request := Some req \<rparr>), w')
     | (Inr resp, w') \<Rightarrow>
         (case final_answer resp of
            Inl e \<Rightarrow> ((Some (PyError e), ns\<lparr> converse_request := Some req, response := ConverseResponse resp \<rparr>), w')
          | Inr answer \<Rightarrow>
              ((None, ns\<lparr> converse_request := Some req, response := ConverseResponse resp,
                        stdout := stdout ns @ lit ''Final Answer:\<newline> '' @ answer @ lit ''\<newline>'' \<rparr>), w')))"
  using assms by (simp add: cell_generate_def Let_def lit_def split: prod.split sum.split)

lemma cell_generate_recording_sent:
  fixes api :: "(converse_kwargs, 'w, 'x, converse_response) sdk_operation"
  assumes "build_converse_request isprintable ns = (Inr req)"
  shows "snd (cell_generate isprintable (recording api) ns (sent, w)) =
           (sent @ [\<lparr> system = system req, messages = messages req,
                 inferenceConfig = inferenceConfig req, modelId = model_id ns \<rparr>],
            snd (api \<lparr> system = system req, messages = messages req,
                 inferenceConfig = inferenceConfig req, modelId = model_id ns \<rparr> w))"
  by (simp add: cell_generate_built [OF assms] recording_def split: prod.split sum.split)

lemma cell_prompts_example_session:
  "cell_prompts example_session = (None, example_prompted)"
  by (simp add: cell_prompts_def example_session_def example_prompted_def example_results_def)

section \<open>Lemmas on the subsampling\<close>

lemma within_limit_dp_text:
  "within_limit L dp = (case dp_text dp of Inl e \<Rightarrow> False | Inr t \<Rightarrow> int (length t) \<le> L)"
  by (auto simp: within_limit_def dp_text_def split: list.splits)

lemma filter_loop_Inr:
  "filter_loop L acc dps = Inr lines \<Longrightarrow> lines = acc @ filter (within_limit L) dps"
proof (induction dps arbitrary: acc)
  case Nil
  then show ?case by simp
next
  case (Cons dp dps)
  show ?case
  proof (cases "dp_text dp")
    case (Inl e)
    with Cons.prems show ?thesis by simp
  next
    case (Inr t)
    show ?thesis
    proof (cases "int (length t) \<le> L")
      case True
      with Inr Cons.prems have "filter_loop L (acc @ [dp]) dps = Inr lines" by simp
      from Cons.IH [OF this] Inr True show ?thesis by (simp add: within_limit_dp_text)
    next
      case False
      with Inr Cons.prems have "filter_loop L acc dps = Inr lines" by simp
      from Cons.IH [OF this] Inr False show ?thesis by (simp add: within_limit_dp_text)
    qed
  qed
qed

lemma filter_loop_well_formed:
  "\<forall>dp\<in>set dps. 2 \<le> length (dp_messages dp) \<Longrightarrow> \<exists>lines. filter_loop L acc dps = Inr lines"
proof (induction dps arbitrary: acc)
  case Nil
  show ?case by simp
next
  case (Cons dp dps)
  from Cons.prems obtain m0 m1 ms where "dp_messages dp = m0 # m1 # ms"
    by (cases "dp_messages dp"; cases "tl (dp_messages dp)") auto
  then have "dp_text dp = Inr (dp_system dp @ content m0 @ content m1)"
    by (simp add: dp_text_def)
  with Cons show ?case by simp
qed

lemma randbelow_less: "0 < n \<Longrightarrow> fst (randbelow gen n g) < n"
  by (simp add: randbelow_def split: prod.split)

lemma shuffle_from_mset:
  "i < length x \<Longrightarrow> mset (fst (shuffle_from gen i x g)) = mset x"
proof (induction i arbitrary: x g)
  case 0
  show ?case by simp
next
  case (Suc i)
  obtain j g' where r: "randbelow gen (Suc i + 1) g = (j, g')"
    by (cases "randbelow gen (Suc i + 1) g")
  with randbelow_less [of "Suc i + 1" gen g] have "j < Suc i + 1" by simp
  with Suc.prems have j: "j < length x" by simp
  let ?x = "x[Suc i := x ! j, j := x ! Suc i]"
  have "mset ?x = mset x"
    using mset_swap [OF j Suc.prems] .
  moreover have "i < length ?x" using Suc.prems by simp
  ultimately show ?case using Suc.IH [of ?x g'] r by simp
qed

lemma shuffle_mset: "mset (fst (shuffle gen x g)) = mset x"
proof (cases x)
  case Nil
  then show ?thesis by (simp add: shuffle_def)
next
  case (Cons a as)
  then show ?thesis by (simp add: shuffle_def shuffle_from_mset)
qed

lemma slice_to_length:
  "int (length (slice_to xs n)) =
     (if 0 \<le> n then min n (int (length xs)) else max 0 (int (length xs) + n))"
  by (auto simp: slice_to_def)

lemma slice_to_mset: "mset (slice_to xs n) \<subseteq># mset xs"
proof -
  have "mset (take k xs) \<subseteq># mset xs" for k
    by (metis append_take_drop_id mset_append mset_subset_eq_add_left)
  then show ?thesis by (simp add: slice_to_def)
qed

lemma slice_to_all: "int (length xs) \<le> n \<Longrightarrow> slice_to xs n = xs"
  by (auto simp: slice_to_def)

lemma dp_transform_Inr:
  assumes "fst (dp_transform gen data_points num_dps L g) = Inr out"
  shows "\<exists>lines'. mset lines' = mset (filter (within_limit L) data_points)
                 \<and> out = slice_to lines' num_dps"
proof -
  from assms obtain lines where
    lines: "filter_loop L [] data_points = Inr lines"
    by (cases "filter_loop L [] data_points") (auto simp: dp_transform_def)
  with assms have "out = slice_to (fst (shuffle gen lines g)) num_dps"
    by (simp add: dp_transform_def split: prod.splits)
  moreover from filter_loop_Inr [OF lines] have "lines = filter (within_limit L) data_points"
    by simp
  ultimately show ?thesis using shuffle_mset [of gen lines g] by blast
qed

lemma dp_transform_state_independent:
  "fst (dp_transform gen data_points num_dps L g1) = Inr out1
     \<Longrightarrow> \<exists>out2. fst (dp_transform gen' data_points num_dps L g2) = Inr out2"
  by (cases "filter_loop L [] data_points") (auto simp: dp_transform_def split: prod.splits)

lemma example_points_run0:
  "dp_transform counter_gen [point_a, point_long, point_b] 1 10 0 = (Inr [point_b], 1)"
  by (simp add: dp_transform_def dp_text_def shuffle_def randbelow_def slice_to_def
        counter_gen_def point_a_def point_b_def point_long_def lit_def)

lemma example_points_run1:
  "dp_transform counter_gen [point_a, point_long, point_b] 1 10 1 = (Inr [point_a], 2)"
  by (simp add: dp_transform_def dp_text_def shuffle_def randbelow_def slice_to_def
        counter_gen_def point_a_def point_b_def point_long_def lit_def)

lemma example_points_passing:
  "filter (within_limit 10) [point_a, point_long, point_b] = [point_a, point_b]"
  by (simp add: within_limit_def point_a_def point_b_def point_long_def lit_def)

section \<open>Properties of \<open>retrieve\<close>\<close>

text \<open>
  C1. For every query string, knowledge-base identifier and result count (5 when the
  argument is omitted), \<open>retrieve\<close> issues exactly one Retrieve request: the log of a
  recording client holds one request, whose retrievalQuery.text is the query, whose
  knowledgeBaseId is the identifier and whose numberOfResults is the count. What
  \<open>retrieve\<close> returns, and the state it leaves the service in, are those of that one
  request: the response is passed through as it is.
\<close>

theorem retrieve_one_request_pass_through:
  "\<exists>req. retrieve (recording api) q kb n ([], w)
            = (fst (api req w), ([req], snd (api req w)))
         \<and> retrieve api q kb n w = api req w
         \<and> query_text (retrievalQuery req) = q
         \<and> knowledgeBaseId req = kb
         \<and> numberOfResults (vectorSearchConfiguration (retrievalConfiguration req))
             = (case n of None \<Rightarrow> 5 | Some k \<Rightarrow> k)"
  by (simp add: retrieve_def recording_def split: prod.split)

text \<open>
  C2, as amended. The search type is not an argument of \<open>retrieve\<close>: for every query,
  knowledge-base identifier and result count, the one request issued has
  overrideSearchType \<open>HYBRID\<close>. Only the result count of the search configuration comes
  from the caller.
\<close>

theorem retrieve_search_type_is_hybrid:
  "\<exists>req. fst (snd (retrieve (recording api) q kb n ([], w))) = [req]
         \<and> overrideSearchType (vectorSearchConfiguration (retrievalConfiguration req)) = lit ''HYBRID''"
  by (simp add: retrieve_def recording_def split: prod.split)

text \<open>
  C2 as stated fails: two calls that differ in every argument, one of them asking for
  \<open>SEMANTIC\<close> in its query text and omitting the count, both issue a request with
  overrideSearchType \<open>HYBRID\<close>.
\<close>

theorem retrieve_search_type_counterexample:
  "retrieve echo (lit ''What is Amazon doing in the field of Generative AI?'') (lit ''KB1'') (Some 3) ()
     = (Inr \<lparr> retrievalQuery = \<lparr> query_text = lit ''What is Amazon doing in the field of Generative AI?'' \<rparr>,
              knowledgeBaseId = lit ''KB1'',
              retrievalConfiguration = \<lparr> vectorSearchConfiguration =
                 \<lparr> numberOfResults = 3, overrideSearchType = lit ''HYBRID'' \<rparr> \<rparr> \<rparr>, ())
   \<and> retrieve echo (lit ''SEMANTIC'') (lit ''KB2'') None ()
     = (Inr \<lparr> retrievalQuery = \<lparr> query_text = lit ''SEMANTIC'' \<rparr>,
              knowledgeBaseId = lit ''KB2'',
              retrievalConfiguration = \<lparr> vectorSearchConfiguration =
                 \<lparr> numberOfResults = 5, overrideSearchType = lit ''HYBRID'' \<rparr> \<rparr> \<rparr>, ())"
  by (simp add: retrieve_def echo_def)

section \<open>Properties of the prompt and generation cells\<close>

text \<open>
  C4. When the name \<open>response\<close> holds a Retrieve response, the cell binds \<open>contexts\<close>
  to a list \<open>cs\<close> exactly when the content.text members of the retrievalResults are, one
  per result and in the service's order, the elements of \<open>cs\<close>. The cell, whether it
  succeeds or stops on a missing \<open>text\<close>, leaves \<open>response\<close> (and so every
  retrieval result record), the query and the printed output as they were.
\<close>

theorem context_extraction_reads_texts_in_order:
  assumes "response ns = RetrieveResponse r"
  shows "(map (\<lambda>rr. content_text (rr_content rr)) (retrievalResults r) = map Some cs
            \<longleftrightarrow> (\<exists>ns'. cell_prompts ns = (None, ns') \<and> contexts ns' = Some cs))
         \<and> (map (\<lambda>rr. content_text (rr_content rr)) (retrievalResults r) = map Some cs
            \<longrightarrow> length cs = length (retrievalResults r))
         \<and> response (snd (cell_prompts ns)) = RetrieveResponse r
         \<and> user_query (snd (cell_prompts ns)) = user_query ns
         \<and> stdout (snd (cell_prompts ns)) = stdout ns"
proof -
  have "(\<exists>ns'. cell_prompts ns = (None, ns') \<and> contexts ns' = Some cs)
          \<longleftrightarrow> contexts_of (retrievalResults r) = Inr cs"
  proof
    assume "\<exists>ns'. cell_prompts ns = (None, ns') \<and> contexts ns' = Some cs"
    then obtain ns' where a: "cell_prompts ns = (None, ns')" and b: "contexts ns' = Some cs"
      by blast
    from cell_prompts_succeeds [OF a] assms b
    show "contexts_of (retrievalResults r) = Inr cs" by auto
  next
    assume "contexts_of (retrievalResults r) = Inr cs"
    with assms show "\<exists>ns'. cell_prompts ns = (None, ns') \<and> contexts ns' = Some cs"
      by (simp add: cell_prompts_def)
  qed
  then have "map (\<lambda>rr. content_text (rr_content rr)) (retrievalResults r) = map Some cs
            \<longleftrightarrow> (\<exists>ns'. cell_prompts ns = (None, ns') \<and> contexts ns' = Some cs)"
    by (simp add: contexts_of_Inr_iff)
  moreover have "length cs = length (retrievalResults r)"
    if "map (\<lambda>rr. content_text (rr_content rr)) (retrievalResults r) = map Some cs"
    using map_eq_imp_length_eq [OF that] by simp
  moreover have "response (snd (cell_prompts ns)) = RetrieveResponse r"
    using assms by (simp add: cell_prompts_response)
  moreover have "user_query (snd (cell_prompts ns)) = user_query ns"
    "stdout (snd (cell_prompts ns)) = stdout ns"
    by (simp_all add: cell_prompts_def Let_def split: response_value.split sum.split)
  ultimately show ?thesis by blast
qed

text \<open>The session of two results: the contexts are the two texts, in order.\<close>

theorem context_extraction_reads_texts_in_order_witness:
  "response example_session = RetrieveResponse \<lparr> retrievalResults = example_results \<rparr>
   \<and> map (\<lambda>rr. content_text (rr_content rr)) example_results
       = map Some [lit ''Amazon's view'', lit ''Bedrock'']
   \<and> (\<exists>ns'. cell_prompts example_session = (None, ns')
             \<and> contexts ns' = Some [lit ''Amazon's view'', lit ''Bedrock''])
   \<and> response (snd (cell_prompts example_session))
       = RetrieveResponse \<lparr> retrievalResults = example_results \<rparr>"
proof -
  have h1: "response example_session = RetrieveResponse \<lparr> retrievalResults = example_results \<rparr>"
    by (simp add: example_session_def)
  have h2: "map (\<lambda>rr. content_text (rr_content rr))
              (retrievalResults \<lparr> retrievalResults = example_results \<rparr>)
            = map Some [lit ''Amazon's view'', lit ''Bedrock'']"
    by (simp add: example_results_def)
  from context_extraction_reads_texts_in_order
         [OF h1, of "[lit ''Amazon's view'', lit ''Bedrock'']"] h1 h2
  show ?thesis by simp
qed

text \<open>
  C3. In a session where the prompt cell has run, the generation cell issues exactly one
  Converse call. Its \<open>system\<close> is the one block holding the defined system instruction,
  its \<open>messages\<close> is the one user message whose one block holds the formatted prompt,
  its \<open>inferenceConfig\<close> is temperature 0.4, topP 0.9 and maxTokens 500, and its
  \<open>modelId\<close> is the session's \<open>model_id\<close>. When the call returns a response whose first
  content block is a text, the cell ends without an exception and what it prints is
  \<open>Final Answer:\<close>, a line break, a space, that text and a line break.
\<close>

theorem generation_step_request_and_answer:
  fixes converse :: "(converse_kwargs, 'w, 'x, converse_response) sdk_operation"
  assumes "cell_prompts ns0 = (None, ns)"
  shows "\<exists>cs prompt kw.
           contexts ns = Some cs
         \<and> format isprintable user_prompt_template_text
              [(lit ''contexts'', PyStrList cs), (lit ''user_query'', PyStr (user_query ns))]
             = (Inr prompt)
         \<and> kw = \<lparr> system = [TextBlock system_prompt_text],
                   messages = [\<lparr> role = lit ''user'', content = [TextBlock prompt] \<rparr>],
                   inferenceConfig = \<lparr> temperature = 0.4, topP = 0.9, maxTokens = 500 \<rparr>,
                   modelId = model_id ns \<rparr>
         \<and> snd (cell_generate isprintable (recording converse) ns ([], w)) = ([kw], snd (converse kw w))
         \<and> (\<forall>resp t bs.
               fst (converse kw w) = Inr resp \<and> content (message (output' resp)) = TextBlock t # bs
               \<longrightarrow> fst (fst (cell_generate isprintable converse ns w)) = None
                 \<and> stdout (snd (fst (cell_generate isprintable converse ns w)))
                     = stdout ns @ lit ''Final Answer:\<newline> '' @ t @ lit ''\<newline>'')"
proof -
  from cell_prompts_succeeds [OF assms] obtain r cs where
    ns: "ns = ns0\<lparr> system_prompt := Some system_prompt_text,
                    user_prompt_template := Some user_prompt_template_text,
                    contexts := Some cs \<rparr>"
    by blast
  obtain prompt where
    prompt: "format isprintable user_prompt_template_text
               [(lit ''contexts'', PyStrList cs), (lit ''user_query'', PyStr (user_query ns))]
             = (Inr prompt)"
    using format_user_prompt by blast
  let ?req = "\<lparr> system = [TextBlock system_prompt_text],
                 messages = [\<lparr> role = lit ''user'', content = [TextBlock prompt] \<rparr>],
                 inferenceConfig = \<lparr> temperature = 0.4, topP = 0.9, maxTokens = 500 \<rparr> \<rparr>"
  let ?kw = "\<lparr> system = [TextBlock system_prompt_text],
                messages = [\<lparr> role = lit ''user'', content = [TextBlock prompt] \<rparr>],
                inferenceConfig = \<lparr> temperature = 0.4, topP = 0.9, maxTokens = 500 \<rparr>,
                modelId = model_id ns \<rparr>"
  have built: "build_converse_request isprintable ns = (Inr ?req)"
    by (rule build_converse_request_bound [OF _ _ _ prompt]) (simp_all add: ns)
  have sent: "snd (cell_generate isprintable (recording converse) ns ([], w)) = ([?kw], snd (converse ?kw w))"
    using cell_generate_recording_sent [OF built, of converse "[]" w] by simp
  have answer: "fst (fst (cell_generate isprintable converse ns w)) = None
                 \<and> stdout (snd (fst (cell_generate isprintable converse ns w)))
                     = stdout ns @ lit ''Final Answer:\<newline> '' @ t @ lit ''\<newline>''"
    if "fst (converse ?kw w) = Inr resp" "content (message (output' resp)) = TextBlock t # bs"
    for resp t bs
  proof -
    from that(1) obtain w' where "converse ?kw w = (Inr resp, w')"
      by (cases "converse ?kw w") simp
    moreover from that(2) have "final_answer resp = (Inr t)"
      by (simp add: final_answer_def)
    ultimately show ?thesis
      using cell_generate_built [OF built, of converse w] by simp
  qed
  from ns have "contexts ns = Some cs" by simp
  with prompt sent answer show ?thesis by blast
qed

text \<open>The example session, with a service that answers \<open>It invests.\<close>\<close>

theorem generation_step_request_and_answer_witness:
  "cell_prompts example_session = (None, example_prompted)
   \<and> (\<exists>kw. snd (cell_generate example_printable (recording (answering (lit ''It invests.'') :: (converse_kwargs, unit, unit, converse_response) sdk_operation)) example_prompted ([], ())) = ([kw], ())
          \<and> inferenceConfig kw = \<lparr> temperature = 0.4, topP = 0.9, maxTokens = 500 \<rparr>
          \<and> system kw = [TextBlock system_prompt_text])
   \<and> stdout (snd (fst (cell_generate example_printable (answering (lit ''It invests.'') :: (converse_kwargs, unit, unit, converse_response) sdk_operation) example_prompted ())))
       = lit ''Final Answer:\<newline> It invests.\<newline>''"
proof -
  have h: "cell_prompts example_session = (None, example_prompted)"
    by (rule cell_prompts_example_session)
  from generation_step_request_and_answer
         [OF h, of example_printable "answering (lit ''It invests.'')" "()"]
  show ?thesis
    using h by (auto simp: answering_def example_prompted_def example_session_def lit_def)
qed

text \<open>
  C9. Whatever the query and the list of contexts bound in the session, over all code
  points, the text of the single user message of the Converse call is the template with
  \<open>{contexts}\<close> replaced by the rendering of the list as a whole (an opening bracket, the
  \<open>repr\<close> of each text with its quotes and escapes, separated by a comma and a space,
  a closing bracket) between the \<open>context\<close> tags, and \<open>{user_query}\<close> replaced by the
  query, code point for code point, between the \<open>query\<close> tags. The rendering of each
  text is in its quote (the double quote exactly when the text holds a single quote and
  no double quote), so the list is never the plain texts joined; this holds for every
  printable test of the interpreter.
\<close>

theorem user_message_holds_query_and_list_rendering:
  fixes converse :: "(converse_kwargs, 'w, 'x, converse_response) sdk_operation"
  assumes "system_prompt ns = Some sp"
      and "user_prompt_template ns = Some user_prompt_template_text"
      and "contexts ns = Some cs"
  shows "\<exists>kw. fst (snd (cell_generate isprintable (recording converse) ns ([], w))) = [kw]
          \<and> messages kw =
              [\<lparr> role = lit ''user'',
                 content = [TextBlock
                   (lit ''Here is some additional context:\<newline><context>\<newline>'' @
                    (lit ''['' @ join (lit '', '') (map (str_repr isprintable) cs) @ lit '']'') @
                    lit ''\<newline></context>\<newline>\<newline>Please provide an answer to this user query:\<newline><query>\<newline>'' @
                    user_query ns @
                    lit ''\<newline></query>\<newline>\<newline>The response should be specific and use statistics or numbers when possible.'')] \<rparr>]
          \<and> list_all (\<lambda>c. \<exists>body. str_repr isprintable c
                   = (if 39 \<in> set c \<and> 34 \<notin> set c then 34 # body @ [34] else 39 # body @ [39])) cs"
proof -
  let ?prompt = "lit ''Here is some additional context:\<newline><context>\<newline>'' @ list_repr isprintable cs @
     lit ''\<newline></context>\<newline>\<newline>Please provide an answer to this user query:\<newline><query>\<newline>'' @ user_query ns @
     lit ''\<newline></query>\<newline>\<newline>The response should be specific and use statistics or numbers when possible.''"
  have "format isprintable user_prompt_template_text
          [(lit ''contexts'', PyStrList cs), (lit ''user_query'', PyStr (user_query ns))]
        = Inr ?prompt"
    by (rule format_user_prompt)
  from build_converse_request_bound [OF assms this]
       cell_generate_recording_sent [of isprintable ns _ converse "[]" w]
  have "\<exists>kw. fst (snd (cell_generate isprintable (recording converse) ns ([], w))) = [kw]
          \<and> messages kw = [\<lparr> role = lit ''user'', content = [TextBlock ?prompt] \<rparr>]"
    by simp
  moreover have "list_all (\<lambda>c. \<exists>body. str_repr isprintable c
                   = (if 39 \<in> set c \<and> 34 \<notin> set c then 34 # body @ [34] else 39 # body @ [39])) cs"
    by (simp add: list_all_iff str_repr_def)
  ultimately show ?thesis by (simp add: list_repr_def)
qed

text \<open>
  A session whose second context holds a thin space, a tab, a line break, a zero-width
  space, a soft hyphen, an emoji, a language tag, a backslash and an accented letter, and
  whose query holds a euro sign and braces: the list is rendered with Python's escapes
  (\<open>\u2009\<close>, \<open>\t\<close>, \<open>\n\<close>, \<open>\u200b\<close>, \<open>\xad\<close>, \<open>\U000e0001\<close>, a doubled
  backslash), the first context in double quotes, and the query is inserted as it is.
\<close>

theorem user_message_holds_query_and_list_rendering_witness:
  "system_prompt unicode_session = Some system_prompt_text
   \<and> user_prompt_template unicode_session = Some user_prompt_template_text
   \<and> (\<exists>kw. fst (snd (cell_generate example_printable
                       (recording (answering (lit ''It invests.'')
                          :: (converse_kwargs, unit, unit, converse_response) sdk_operation))
                       unicode_session ([], ()))) = [kw]
          \<and> messages kw =
              [\<lparr> role = lit ''user'',
                 content = [TextBlock
                   (lit ''Here is some additional context:\<newline><context>\<newline>'' @
                    lit ''[\"Amazon's view\", '5'' @ [92] @ lit ''u2009%'' @ [92] @ lit ''tup'' @
                    [92] @ lit ''n'' @ [92] @ lit ''u200b'' @ [92] @ lit ''xad'' @ [128200, 92] @
                    lit ''U000e0001'' @ [92, 92, 233, 39] @ lit '']'' @
                    lit ''\<newline></context>\<newline>\<newline>Please provide an answer to this user query:\<newline><query>\<newline>'' @
                    lit ''Quel est le chiffre d'affaires en '' @ [8364] @ lit '' {contexts}?'' @
                    lit ''\<newline></query>\<newline>\<newline>The response should be specific and use statistics or numbers when possible.'')] \<rparr>])"
proof -
  let ?cs = "[lit ''Amazon's view'',
              lit ''5'' @ [8201] @ lit ''%'' @ [9] @ lit ''up'' @
              [10, 8203, 173, 128200, 917505, 92, 233]]"
  have h1: "system_prompt unicode_session = Some system_prompt_text"
   and h2: "user_prompt_template unicode_session = Some user_prompt_template_text"
   and h3: "contexts unicode_session = Some ?cs"
    by (simp_all add: unicode_session_def example_prompted_def)
  have r: "lit ''['' @ join (lit '', '') (map (str_repr example_printable) ?cs) @ lit '']''
           = lit ''[\"Amazon's view\", '5'' @ [92] @ lit ''u2009%'' @ [92] @ lit ''tup'' @
             [92] @ lit ''n'' @ [92] @ lit ''u200b'' @ [92] @ lit ''xad'' @ [128200, 92] @
             lit ''U000e0001'' @ [92, 92, 233, 39] @ lit '']''"
    by (simp add: str_repr_def repr_char_def hex_def hex_digit_def example_printable_def
          Let_def lit_def)
  have q: "user_query unicode_session
           = lit ''Quel est le chiffre d'affaires en '' @ [8364] @ lit '' {contexts}?''"
    by (simp add: unicode_session_def)
  from user_message_holds_query_and_list_rendering
         [OF h1 h2 h3, of example_printable
            "answering (lit ''It invests.'')
               :: (converse_kwargs, unit, unit, converse_response) sdk_operation" "()"]
  obtain kw where
    "fst (snd (cell_generate example_printable
                 (recording (answering (lit ''It invests.'')
                    :: (converse_kwargs, unit, unit, converse_response) sdk_operation))
                 unicode_session ([], ()))) = [kw]"
    and "messages kw =
              [\<lparr> role = lit ''user'',
                 content = [TextBlock
                   (lit ''Here is some additional context:\<newline><context>\<newline>'' @
                    (lit ''['' @ join (lit '', '') (map (str_repr example_printable) ?cs) @ lit '']'') @
                    lit ''\<newline></context>\<newline>\<newline>Please provide an answer to this user query:\<newline><query>\<newline>'' @
                    user_query unicode_session @
                    lit ''\<newline></query>\<newline>\<newline>The response should be specific and use statistics or numbers when possible.'')] \<rparr>]"
    by blast
  then show ?thesis unfolding r q using h1 h2 by auto
qed

text \<open>
  C10. The \<open>system\<close> field of the Converse call is the same in any two runs, whatever
  the queries, the retrieval results and the services: it is the one block holding the
  defined system instruction.
\<close>

theorem system_instruction_is_constant:
  fixes conv_a :: "(converse_kwargs, 'w, 'x, converse_response) sdk_operation"
    and conv_b :: "(converse_kwargs, 'v, 'y, converse_response) sdk_operation"
  assumes "cell_prompts a0 = (None, a)"
      and "cell_prompts b0 = (None, b)"
  shows "\<exists>ka kb. fst (snd (cell_generate isprintable (recording conv_a) a ([], wa))) = [ka]
             \<and> fst (snd (cell_generate isprintable (recording conv_b) b ([], wb))) = [kb]
             \<and> system ka = system kb
             \<and> system ka = [TextBlock system_prompt_text]"
proof -
  have one: "\<exists>kw. fst (snd (cell_generate isprintable (recording conv) ns ([], w))) = [kw]
                \<and> system kw = [TextBlock system_prompt_text]"
    if "cell_prompts ns0 = (None, ns)"
    for conv :: "(converse_kwargs, 'u, 'z, converse_response) sdk_operation"
      and ns0 ns :: "('l, 's) namespace" and w
  proof -
    from cell_prompts_succeeds [OF that] obtain cs where
      ns: "ns = ns0\<lparr> system_prompt := Some system_prompt_text,
                      user_prompt_template := Some user_prompt_template_text,
                      contexts := Some cs \<rparr>"
      by blast
    obtain prompt where
      "format isprintable user_prompt_template_text
         [(lit ''contexts'', PyStrList cs), (lit ''user_query'', PyStr (user_query ns))]
       = (Inr prompt)"
      using format_user_prompt by blast
    from build_converse_request_bound [OF _ _ _ this, of system_prompt_text]
    have "build_converse_request isprintable ns =
            (Inr \<lparr> system = [TextBlock system_prompt_text],
                   messages = [\<lparr> role = lit ''user'', content = [TextBlock prompt] \<rparr>],
                   inferenceConfig = \<lparr> temperature = 0.4, topP = 0.9, maxTokens = 500 \<rparr> \<rparr>)"
      by (simp add: ns)
    from cell_generate_recording_sent [OF this, of conv "[]" w]
    show ?thesis by simp
  qed
  from one [OF assms(1), of conv_a wa] one [OF assms(2), of conv_b wb]
  show ?thesis by auto
qed

text \<open>Two sessions with different queries and different retrieval results.\<close>

theorem system_instruction_is_constant_witness:
  "cell_prompts example_session = (None, example_prompted)
   \<and> cell_prompts other_session = (None, snd (cell_prompts other_session))
   \<and> user_query example_session \<noteq> user_query other_session
   \<and> (\<exists>ka kb. fst (snd (cell_generate example_printable (recording (answering (lit ''It invests.'') :: (converse_kwargs, unit, unit, converse_response) sdk_operation)) example_prompted ([], ()))) = [ka]
             \<and> fst (snd (cell_generate example_printable (recording (failing () :: (converse_kwargs, unit, unit, converse_response) sdk_operation)) (snd (cell_prompts other_session)) ([], ()))) = [kb]
             \<and> system ka = system kb
             \<and> system ka = [TextBlock system_prompt_text])"
proof -
  have h1: "cell_prompts example_session = (None, example_prompted)"
    by (rule cell_prompts_example_session)
  have h2: "cell_prompts other_session = (None, snd (cell_prompts other_session))"
    by (simp add: cell_prompts_def other_session_def example_session_def)
  have h3: "user_query example_session \<noteq> user_query other_session"
    by (simp add: other_session_def example_session_def lit_def)
  from system_instruction_is_constant
         [OF h1 h2, of example_printable "answering (lit ''It invests.'')" "()" "failing ()" "()"]
       h1 h2 h3
  show ?thesis by blast
qed

section \<open>Exceptions of the SDK calls\<close>

text \<open>
  C5. When the Retrieve operation raises an exception, \<open>retrieve\<close> ends with that same
  exception and the service state the operation left. When the Converse operation raises
  an exception, the generation cell ends with that same exception: \<open>converse_request\<close>
  is bound, \<open>response\<close> is not bound again and nothing is printed. Neither call site
  catches, retries or replaces the exception.
\<close>

theorem sdk_exceptions_propagate:
  fixes retrieve_api :: "(retrieve_request, 'w, 'x, 'resp) sdk_operation"
    and converse :: "(converse_kwargs, 'v, 'y, converse_response) sdk_operation"
  shows "(retrieve_api
            \<lparr> retrievalQuery = \<lparr> query_text = q \<rparr>,
              knowledgeBaseId = kb,
              retrievalConfiguration =
                \<lparr> vectorSearchConfiguration =
                    \<lparr> numberOfResults = (case n of None \<Rightarrow> 5 | Some k \<Rightarrow> k),
                      overrideSearchType = lit ''HYBRID'' \<rparr> \<rparr> \<rparr> w = (Inl x, w')
          \<longrightarrow> retrieve retrieve_api q kb n w = (Inl x, w'))
       \<and> (build_converse_request isprintable ns = (Inr req)
          \<and> converse \<lparr> system = system req, messages = messages req,
                        inferenceConfig = inferenceConfig req, modelId = model_id ns \<rparr> v
              = (Inl y, v')
          \<longrightarrow> cell_generate isprintable converse ns v
                = ((Some (SdkException y), ns\<lparr> converse_request := Some req \<rparr>), v'))"
proof (intro conjI impI)
  assume "retrieve_api
            \<lparr> retrievalQuery = \<lparr> query_text = q \<rparr>,
              knowledgeBaseId = kb,
              retrievalConfiguration =
                \<lparr> vectorSearchConfiguration =
                    \<lparr> numberOfResults = (case n of None \<Rightarrow> 5 | Some k \<Rightarrow> k),
                      overrideSearchType = lit ''HYBRID'' \<rparr> \<rparr> \<rparr> w = (Inl x, w')"
  then show "retrieve retrieve_api q kb n w = (Inl x, w')"
    by (simp add: retrieve_def)
next
  assume a: "build_converse_request isprintable ns = (Inr req)
          \<and> converse \<lparr> system = system req, messages = messages req,
                        inferenceConfig = inferenceConfig req, modelId = model_id ns \<rparr> v
              = (Inl y, v')"
  then have built: "build_converse_request isprintable ns = (Inr req)"
    by simp
  from a show "cell_generate isprintable converse ns v
                = ((Some (SdkException y), ns\<lparr> converse_request := Some req \<rparr>), v')"
    by (simp add: cell_generate_built [OF built])
qed

text \<open>Services that raise a throttling and an access-denied exception.\<close>

theorem sdk_exceptions_propagate_witness:
  "retrieve (failing (lit ''ThrottlingException'') :: (retrieve_request, unit, pystr, unit) sdk_operation)
      (lit ''What is Amazon doing in the field of Generative AI?'') (lit ''KB1'') (Some 3) ()
     = (Inl (lit ''ThrottlingException''), ())
   \<and> (\<exists>req. build_converse_request example_printable example_prompted
                = (Inr req)
          \<and> cell_generate example_printable (failing (lit ''AccessDeniedException'')) example_prompted ()
                = ((Some (SdkException (lit ''AccessDeniedException'')),
                    example_prompted\<lparr> converse_request := Some req \<rparr>), ()))"
proof -
  obtain prompt where
    prompt: "format example_printable user_prompt_template_text
       [(lit ''contexts'', PyStrList [lit ''Amazon's view'', lit ''Bedrock'']),
        (lit ''user_query'', PyStr (user_query example_prompted))]
      = (Inr prompt)"
    using format_user_prompt by blast
  have "\<exists>req. build_converse_request example_printable example_prompted
                = (Inr req)"
    by (rule exI, rule build_converse_request_bound [OF _ _ _ prompt])
       (simp_all add: example_prompted_def)
  then obtain req where
    built: "build_converse_request example_printable example_prompted
              = (Inr req)"
    by blast
  from sdk_exceptions_propagate
         [of "failing (lit ''ThrottlingException'')"
             "(lit ''What is Amazon doing in the field of Generative AI?'')" "(lit ''KB1'')" "Some 3" "()"
             "lit ''ThrottlingException''" "()"
             example_printable example_prompted req "failing (lit ''AccessDeniedException'')" "()"
             "(lit ''AccessDeniedException'')" "()"]
       built
  show ?thesis by (auto simp: failing_def)
qed

section \<open>Properties of \<open>dp_transform\<close>\<close>

text \<open>
  C6. For every list of data points, every requested count, every maximum length \<open>L\<close>
  and every state of the generator: when each data point has its two messages,
  \<open>dp_transform\<close> returns a list; and every record of a returned list is one of the data
  points, has its user and assistant messages, and the lengths of its system, user and
  assistant texts add up to at most \<open>L\<close>.
\<close>

theorem dp_transform_output_within_limit:
  "((\<forall>dp\<in>set data_points. 2 \<le> length (dp_messages dp))
      \<longrightarrow> (\<exists>out. fst (dp_transform gen data_points num_dps L g) = Inr out))
   \<and> (\<forall>out. fst (dp_transform gen data_points num_dps L g) = Inr out
      \<longrightarrow> (\<forall>dp\<in>set out.
             dp \<in> set data_points
           \<and> (\<exists>m0 m1 ms. dp_messages dp = m0 # m1 # ms
                \<and> int (length (dp_system dp) + length (content m0) + length (content m1)) \<le> L)))"
proof (intro conjI impI allI)
  assume "\<forall>dp\<in>set data_points. 2 \<le> length (dp_messages dp)"
  from filter_loop_well_formed [OF this, of L "[]"]
  show "\<exists>out. fst (dp_transform gen data_points num_dps L g) = Inr out"
    by (auto simp: dp_transform_def split: prod.splits)
next
  fix out
  assume "fst (dp_transform gen data_points num_dps L g) = Inr out"
  from dp_transform_Inr [OF this] obtain lines' where
    m: "mset lines' = mset (filter (within_limit L) data_points)"
    and out: "out = slice_to lines' num_dps"
    by blast
  show "\<forall>dp\<in>set out.
             dp \<in> set data_points
           \<and> (\<exists>m0 m1 ms. dp_messages dp = m0 # m1 # ms
                \<and> int (length (dp_system dp) + length (content m0) + length (content m1)) \<le> L)"
  proof
    fix dp
    assume "dp \<in> set out"
    with out have "dp \<in># mset lines'"
      using mset_subset_eqD [OF slice_to_mset [of lines' num_dps]] by simp
    with m have "dp \<in> set data_points" and "within_limit L dp" by simp_all
    then show "dp \<in> set data_points
           \<and> (\<exists>m0 m1 ms. dp_messages dp = m0 # m1 # ms
                \<and> int (length (dp_system dp) + length (content m0) + length (content m1)) \<le> L)"
      by (auto simp: within_limit_def split: list.splits)
  qed
qed

text \<open>
  Three data points of 5, 28 and 9 characters with the limit 10 and a count of 5, which
  does not truncate: the record of 28 characters is not returned, the other two are.
\<close>

theorem dp_transform_output_within_limit_witness:
  "2 \<le> length (dp_messages point_a) \<and> 2 \<le> length (dp_messages point_long)
   \<and> 2 \<le> length (dp_messages point_b)
   \<and> fst (dp_transform counter_gen [point_a, point_long, point_b] 5 10 0)
       = Inr [point_b, point_a]
   \<and> length (dp_system point_long) + length (content (dp_messages point_long ! 0))
       + length (content (dp_messages point_long ! 1)) = 28
   \<and> (\<exists>m0 m1 ms. dp_messages point_b = m0 # m1 # ms
         \<and> int (length (dp_system point_b) + length (content m0) + length (content m1)) \<le> 10)
   \<and> (\<exists>m0 m1 ms. dp_messages point_a = m0 # m1 # ms
         \<and> int (length (dp_system point_a) + length (content m0) + length (content m1)) \<le> 10)"
proof -
  have wf: "\<forall>dp\<in>set [point_a, point_long, point_b]. 2 \<le> length (dp_messages dp)"
    by (simp add: point_a_def point_b_def point_long_def)
  have run: "fst (dp_transform counter_gen [point_a, point_long, point_b] 5 10 0)
               = Inr [point_b, point_a]"
    by (simp add: dp_transform_def dp_text_def shuffle_def randbelow_def slice_to_def
          counter_gen_def point_a_def point_b_def point_long_def lit_def)
  have long: "length (dp_system point_long) + length (content (dp_messages point_long ! 0))
       + length (content (dp_messages point_long ! 1)) = 28"
    by (simp add: point_long_def lit_def)
  from dp_transform_output_within_limit
         [of "[point_a, point_long, point_b]" counter_gen 5 10 0] run
  have "\<forall>dp\<in>set [point_b, point_a].
          \<exists>m0 m1 ms. dp_messages dp = m0 # m1 # ms
            \<and> int (length (dp_system dp) + length (content m0) + length (content m1)) \<le> 10"
    by blast
  with wf run long show ?thesis by simp
qed

text \<open>
  C7. For every list of data points, every maximum length and every requested count (a
  number of records, so not negative): the number of records returned is the minimum of
  the requested count and the number of data points passing the length filter.
\<close>

theorem dp_transform_output_size:
  assumes "0 \<le> num_dps"
      and "fst (dp_transform gen data_points num_dps L g) = Inr out"
  shows "int (length out) = min num_dps (int (length (filter (within_limit L) data_points)))"
proof -
  from dp_transform_Inr [OF assms(2)] obtain lines' where
    m: "mset lines' = mset (filter (within_limit L) data_points)"
    and out: "out = slice_to lines' num_dps"
    by blast
  from m have "length lines' = length (filter (within_limit L) data_points)"
    by (rule mset_eq_length)
  with out assms(1) show ?thesis by (simp add: slice_to_length)
qed

text \<open>With two of three records passing, a count of 1 returns one record.\<close>

theorem dp_transform_output_size_witness:
  "(0::int) \<le> 1
   \<and> fst (dp_transform counter_gen [point_a, point_long, point_b] 1 10 0) = Inr [point_b]
   \<and> filter (within_limit 10) [point_a, point_long, point_b] = [point_a, point_b]
   \<and> int (length [point_b]) = min 1 (int (length [point_a, point_b]))"
proof -
  have count: "(0::int) \<le> 1" by simp
  have run: "fst (dp_transform counter_gen [point_a, point_long, point_b] 1 10 0) = Inr [point_b]"
    by (simp add: example_points_run0)
  from dp_transform_output_size [OF count run]
  have "int (length [point_b])
          = min 1 (int (length (filter (within_limit 10) [point_a, point_long, point_b])))" .
  then have "int (length [point_b]) = min 1 (int (length [point_a, point_b]))"
    by (simp only: example_points_passing)
  with count run example_points_passing show ?thesis by blast
qed

text \<open>
  C8, as amended. A run that returns from one state of the generator returns from every
  state. Two runs from the same state return the same list. Two runs from different states
  return lists of the same size, both drawn from the records passing the filter, which do
  not depend on the state; when the requested count is at least the number of passing
  records, both hold exactly the passing records and differ only in order.
\<close>

theorem dp_transform_same_state_same_subsample:
  assumes "fst (dp_transform gen data_points num_dps L g1) = Inr out1"
  shows "\<exists>out2. fst (dp_transform gen data_points num_dps L g2) = Inr out2
           \<and> (g1 = g2 \<longrightarrow> out2 = out1)
           \<and> length out2 = length out1
           \<and> mset out1 \<subseteq># mset (filter (within_limit L) data_points)
           \<and> mset out2 \<subseteq># mset (filter (within_limit L) data_points)
           \<and> (int (length (filter (within_limit L) data_points)) \<le> num_dps
                \<longrightarrow> mset out1 = mset (filter (within_limit L) data_points)
                  \<and> mset out2 = mset out1)"
proof -
  let ?passing = "filter (within_limit L) data_points"
  from dp_transform_state_independent [OF assms, of gen g2] obtain out2 where
    run2: "fst (dp_transform gen data_points num_dps L g2) = Inr out2"
    by blast
  have facts: "length out = length out1 \<and> mset out \<subseteq># mset ?passing
                 \<and> (int (length ?passing) \<le> num_dps \<longrightarrow> mset out = mset ?passing)"
    if run: "fst (dp_transform gen data_points num_dps L g) = Inr out" for g out
  proof -
    from dp_transform_Inr [OF run] obtain lines' where
      m: "mset lines' = mset ?passing" and out: "out = slice_to lines' num_dps"
      by blast
    from m have len: "length lines' = length ?passing" by (rule mset_eq_length)
    have "int (length out) = int (length out1)"
      using dp_transform_Inr [OF assms] dp_transform_Inr [OF run]
      by (metis mset_eq_length slice_to_length)
    moreover have "mset out \<subseteq># mset ?passing"
      using slice_to_mset [of lines' num_dps] m out by simp
    moreover have "mset out = mset ?passing" if "int (length ?passing) \<le> num_dps"
      using slice_to_all [of lines' num_dps] that len m out by simp
    ultimately show ?thesis by simp
  qed
  from facts [OF assms] facts [OF run2] assms run2
  show ?thesis by auto
qed

text \<open>With a count of 2 the two states return the same two records in different orders.\<close>

theorem dp_transform_same_state_same_subsample_witness:
  "fst (dp_transform counter_gen [point_a, point_long, point_b] 2 10 0) = Inr [point_b, point_a]
   \<and> fst (dp_transform counter_gen [point_a, point_long, point_b] 2 10 1) = Inr [point_a, point_b]
   \<and> int (length (filter (within_limit 10) [point_a, point_long, point_b])) \<le> 2
   \<and> mset [point_a, point_b] = mset [point_b, point_a]"
proof -
  have run0: "fst (dp_transform counter_gen [point_a, point_long, point_b] 2 10 0)
                = Inr [point_b, point_a]"
    by (simp add: dp_transform_def dp_text_def shuffle_def randbelow_def slice_to_def
          counter_gen_def point_a_def point_b_def point_long_def lit_def)
  have run1: "fst (dp_transform counter_gen [point_a, point_long, point_b] 2 10 1)
                = Inr [point_a, point_b]"
    by (simp add: dp_transform_def dp_text_def shuffle_def randbelow_def slice_to_def
          counter_gen_def point_a_def point_b_def point_long_def lit_def)
  have enough: "int (length (filter (within_limit 10) [point_a, point_long, point_b])) \<le> 2"
    by (simp only: example_points_passing) simp
  from dp_transform_same_state_same_subsample [OF run0, of 1] obtain out2 where
    o2: "fst (dp_transform counter_gen [point_a, point_long, point_b] 2 10 1) = Inr out2"
    and same: "int (length (filter (within_limit 10) [point_a, point_long, point_b])) \<le> 2
                 \<longrightarrow> mset [point_b, point_a]
                       = mset (filter (within_limit 10) [point_a, point_long, point_b])
                   \<and> mset out2 = mset [point_b, point_a]"
    by blast
  from o2 run1 have "out2 = [point_a, point_b]" by simp
  with same enough have "mset [point_a, point_b] = mset [point_b, point_a]" by blast
  with run0 run1 enough show ?thesis by blast
qed

text \<open>
  C8 as stated fails when the count truncates: with a count of 1, two states of the
  generator select different records, not the same records in another order.
\<close>

theorem dp_transform_seed_counterexample:
  "fst (dp_transform counter_gen [point_a, point_long, point_b] 1 10 0) = Inr [point_b]
   \<and> fst (dp_transform counter_gen [point_a, point_long, point_b] 1 10 1) = Inr [point_a]
   \<and> set [point_b] \<noteq> set [point_a]"
  using example_points_run0 example_points_run1 by (simp add: point_a_def point_b_def lit_def)

end
